theory Spec2Isabelle
  imports Main "HOL-Library.Sublist"
begin

section \<open>Strings\<close>

text \<open>
  A Python \<open>str\<close> is a sequence of code points. The program below is modelled over
  \<open>string\<close>, whose characters are the code points 0 to 255 (ASCII and Latin-1); on this
  range \<open>str.lower\<close> and \<open>str.isalnum\<close> are written out exactly as CPython computes
  them, and \<open>str.lower\<close> maps every character to a single character with no dependence
  on its neighbours. Line 52, the sanitization of the name, is modelled a second time over
  arbitrary sequences of code points (\<open>sanitize_str\<close> below); the two models agree on
  the strings of the first.
\<close>

definition codepoint :: "char \<Rightarrow> nat" where
  "codepoint c = of_char c"

text \<open>\<open>c.lower()\<close> for one character: A-Z, and the Latin-1 capitals 192-214, 216-222.\<close>

definition lower_char :: "char \<Rightarrow> char" where
  "lower_char c =
     (if (65 \<le> codepoint c \<and> codepoint c \<le> 90) \<or> (192 \<le> codepoint c \<and> codepoint c \<le> 214)
          \<or> (216 \<le> codepoint c \<and> codepoint c \<le> 222)
      then char_of (codepoint c + 32) else c)"

definition lower :: "string \<Rightarrow> string" where
  "lower s = map lower_char s"

text \<open>\<open>c.isalnum()\<close>: the digits and letters of ASCII and the alphanumeric code points
  of Latin-1 (ordinal indicators, superscript digits, micro sign, vulgar fractions and the
  accented letters; not the multiplication and division signs 215 and 247).\<close>

definition isalnum :: "char \<Rightarrow> bool" where
  "isalnum c =
     ((48 \<le> codepoint c \<and> codepoint c \<le> 57) \<or> (65 \<le> codepoint c \<and> codepoint c \<le> 90)
      \<or> (97 \<le> codepoint c \<and> codepoint c \<le> 122) \<or> codepoint c = 170
      \<or> (178 \<le> codepoint c \<and> codepoint c \<le> 179) \<or> codepoint c = 181
      \<or> (185 \<le> codepoint c \<and> codepoint c \<le> 186) \<or> (188 \<le> codepoint c \<and> codepoint c \<le> 190)
      \<or> (192 \<le> codepoint c \<and> codepoint c \<le> 214) \<or> (216 \<le> codepoint c \<and> codepoint c \<le> 246)
      \<or> (248 \<le> codepoint c \<and> codepoint c \<le> 255))"

text \<open>Line 52 of \<open>sync_repos\<close>:
  \<^verbatim>\<open>''.join(c for c in bitbucket_repo_name.lower() if c.isalnum() or c in ['_', '-', '.'])\<close>\<close>

definition sanitize :: "string \<Rightarrow> string" where
  "sanitize bitbucket_repo_name =
     filter (\<lambda>c. isalnum c \<or> c \<in> set [CHR ''_'', CHR ''-'', CHR ''.''])
       (lower bitbucket_repo_name)"

text \<open>
  Line 52 over every Python string. A string is a list of code points. Below 256 the
  tables are those above. Above 255 the Unicode database of the interpreter is a
  parameter: \<open>lower_above c\<close> is the full lower-case mapping of \<open>c\<close> (one or more code
  points), \<open>alnum_above c\<close> is \<open>c.isalnum()\<close>, and \<open>cased\<close> and \<open>case_ignorable\<close> are the two
  properties that decide the lower case of capital sigma.
\<close>

record ucd =
  lower_above :: "nat \<Rightarrow> nat list"
  alnum_above :: "nat \<Rightarrow> bool"
  cased :: "nat \<Rightarrow> bool"
  case_ignorable :: "nat \<Rightarrow> bool"

text \<open>The code points of a string of the first model.\<close>

definition cps :: "string \<Rightarrow> nat list" where
  "cps s = map codepoint s"

definition to_lower_full :: "ucd \<Rightarrow> nat \<Rightarrow> nat list" where
  "to_lower_full u c =
     (if c < 256 then [codepoint (lower_char (char_of c))] else lower_above u c)"

definition is_alnum :: "ucd \<Rightarrow> nat \<Rightarrow> bool" where
  "is_alnum u c = (if c < 256 then isalnum (char_of c) else alnum_above u c)"

text \<open>
  CPython's \<open>handle_capital_sigma\<close>: capital sigma (U+03A3) is final when the nearest
  code point before it that is not case-ignorable exists and is cased, and the nearest
  code point after it that is not case-ignorable does not exist or is not cased.
\<close>

definition final_sigma :: "ucd \<Rightarrow> nat list \<Rightarrow> nat list \<Rightarrow> bool" where
  "final_sigma u seen rest =
     (case dropWhile (case_ignorable u) (rev seen) of
        [] \<Rightarrow> False
      | c # cs \<Rightarrow>
          cased u c \<and>
          (case dropWhile (case_ignorable u) rest of [] \<Rightarrow> True | d # ds \<Rightarrow> \<not> cased u d))"

text \<open>\<open>s.lower()\<close>: capital sigma becomes the final (U+03C2) or the ordinary (U+03C3) small
  sigma; every other code point is replaced by its full lower-case mapping.\<close>

fun lower_from :: "ucd \<Rightarrow> nat list \<Rightarrow> nat list \<Rightarrow> nat list" where
  "lower_from u seen [] = []"
| "lower_from u seen (c # cs) =
     (if c = 0x3A3 then [if final_sigma u seen cs then 0x3C2 else 0x3C3]
      else to_lower_full u c)
     @ lower_from u (seen @ [c]) cs"

definition str_lower :: "ucd \<Rightarrow> nat list \<Rightarrow> nat list" where
  "str_lower u s = lower_from u [] s"

definition sanitize_str :: "ucd \<Rightarrow> nat list \<Rightarrow> nat list" where
  "sanitize_str u bitbucket_repo_name =
     filter (\<lambda>c. is_alnum u c \<or> c \<in> set (cps [CHR ''_'', CHR ''-'', CHR ''.'']))
       (str_lower u bitbucket_repo_name)"

text \<open>The character class \<open>[a-z0-9_.-]\<close> of the specification, and ASCII names.\<close>

definition in_class :: "nat \<Rightarrow> bool" where
  "in_class c = (c \<in> set (cps ''abcdefghijklmnopqrstuvwxyz0123456789_.-''))"

definition is_ascii :: "nat list \<Rightarrow> bool" where
  "is_ascii s = list_all (\<lambda>c. c < 128) s"

text \<open>
  Lower-casing is stable in a database when no lower-case mapping above 255 produces a
  code point that lower-casing would change again: \<open>lower_fixed u d\<close> says that \<open>d\<close> is not
  capital sigma and is its own lower-case mapping.
\<close>

definition lower_fixed :: "ucd \<Rightarrow> nat \<Rightarrow> bool" where
  "lower_fixed u d = (d \<noteq> 0x3A3 \<and> to_lower_full u d = [d])"

definition lowercase_stable :: "ucd \<Rightarrow> bool" where
  "lowercase_stable u =
     ((\<forall>c. 256 \<le> c \<and> c \<noteq> 0x3A3 \<longrightarrow> list_all (lower_fixed u) (lower_above u c))
      \<and> lower_fixed u 0x3C2 \<and> lower_fixed u 0x3C3)"

text \<open>
  An excerpt of the Unicode database: the Greek capitals (U+0391 to U+03A9, without the
  unassigned U+03A2) with their small letters 32 places above, the capital I with dot above
  (U+0130), whose lower case is \<open>i\<close> followed by the combining dot above (U+0307), and the
  case-ignorable apostrophe, full stop and combining dot above. Everything else above 255
  is its own lower case and not alphanumeric.
\<close>

definition greek_excerpt :: ucd where
  "greek_excerpt =
     \<lparr>lower_above = (\<lambda>c. if c = 0x130 then [0x69, 0x307]
                           else if 0x391 \<le> c \<and> c \<le> 0x3A9 \<and> c \<noteq> 0x3A2 then [c + 32]
                           else [c]),
      alnum_above = (\<lambda>c. c = 0x130 \<or> (0x391 \<le> c \<and> c \<le> 0x3A9 \<and> c \<noteq> 0x3A2)
                           \<or> (0x3B1 \<le> c \<and> c \<le> 0x3C9)),
      cased = (\<lambda>c. (65 \<le> c \<and> c \<le> 90) \<or> (97 \<le> c \<and> c \<le> 122) \<or> c = 0x130
                     \<or> (0x391 \<le> c \<and> c \<le> 0x3A9 \<and> c \<noteq> 0x3A2) \<or> (0x3B1 \<le> c \<and> c \<le> 0x3C9)),
      case_ignorable = (\<lambda>c. c = 0x27 \<or> c = 0x2E \<or> c = 0x307)\<rparr>"

text \<open>\<open>os.path.basename\<close> (POSIX): everything after the last slash.\<close>

definition basename :: "string \<Rightarrow> string" where
  "basename p = rev (takeWhile (\<lambda>c. c \<noteq> CHR ''/'') (rev p))"

text \<open>\<open>s.replace(old, new)\<close>: every non-overlapping occurrence of \<open>old\<close>, scanning from
  the left. With an empty \<open>old\<close> Python inserts \<open>new\<close> before every character and at the end.\<close>

function replace_from :: "string \<Rightarrow> string \<Rightarrow> string \<Rightarrow> string" where
  "replace_from old new [] = []"
| "replace_from old new (c # cs) =
     (if old \<noteq> [] \<and> take (length old) (c # cs) = old
      then new @ replace_from old new (drop (length old) (c # cs))
      else c # replace_from old new cs)"
  by pat_completeness auto
termination
  by (relation "measure (\<lambda>(old, new, s). length s)") auto

definition replace :: "string \<Rightarrow> string \<Rightarrow> string \<Rightarrow> string" where
  "replace s old new =
     (if old = [] then new @ concat (map (\<lambda>c. c # new) s) else replace_from old new s)"

text \<open>Line 53 of \<open>sync_repos\<close>:
  \<^verbatim>\<open>os.path.basename(github_repo_url).replace(".git", "") + ".git"\<close>\<close>

definition repo_dir_of :: "string \<Rightarrow> string" where
  "repo_dir_of github_repo_url = replace (basename github_repo_url) ''.git'' '''' @ ''.git''"

text \<open>What the specification describes: the final path segment with a trailing
  \<open>.git\<close> removed if present, and \<open>.git\<close> appended.\<close>

definition strip_suffix_git :: "string \<Rightarrow> string" where
  "strip_suffix_git s = (if suffix ''.git'' s then take (length s - 4) s else s)"

definition spec_repo_dir :: "string \<Rightarrow> string" where
  "spec_repo_dir github_repo_url = strip_suffix_git (basename github_repo_url) @ ''.git''"

section \<open>Exceptions and values\<close>

text \<open>
  Every exception of the program is an instance of \<open>Exception\<close>, so the handler
  \<open>except Exception\<close> of \<open>sync_repos\<close> catches each of them. \<open>ExternalError\<close> stands for
  whatever the git client, the HTTP client or the operating system raises; its argument
  is \<open>str(e)\<close>. Asynchronous signals (\<open>KeyboardInterrupt\<close>) are outside the model.
\<close>

datatype exn =
    AttributeError string
  | TypeError string
  | EnvironmentError string
  | Exception string
  | FileNotFoundError string
  | IsADirectoryError string
  | ExternalError string

text \<open>\<open>str(e)\<close>\<close>

fun str_exn :: "exn \<Rightarrow> string" where
  "str_exn (AttributeError m) = m"
| "str_exn (TypeError m) = m"
| "str_exn (EnvironmentError m) = m"
| "str_exn (Exception m) = m"
| "str_exn (FileNotFoundError m) = m"
| "str_exn (IsADirectoryError m) = m"
| "str_exn (ExternalError m) = m"

text \<open>A value that is a \<open>str\<close> or \<open>None\<close>: what \<open>os.getenv\<close> and \<open>dict.get\<close> return.\<close>

type_synonym pyval = "string option"

text \<open>How an f-string renders such a value.\<close>

fun str_val :: "pyval \<Rightarrow> string" where
  "str_val None = ''None''"
| "str_val (Some s) = s"

text \<open>Truthiness, as \<open>all\<close> and \<open>not\<close> read it: \<open>None\<close> and the empty string are false.\<close>

fun truthy :: "pyval \<Rightarrow> bool" where
  "truthy None = False"
| "truthy (Some s) = (s \<noteq> [])"

text \<open>Decimal rendering of an integer in an f-string.\<close>

function str_nat :: "nat \<Rightarrow> string" where
  "str_nat n =
     (if n < 10 then [char_of (48 + n)] else str_nat (n div 10) @ [char_of (48 + n mod 10)])"
  by pat_completeness auto
termination
  by (relation "measure (\<lambda>n. n)") auto

definition str_int :: "int \<Rightarrow> string" where
  "str_int i = (if i < 0 then CHR ''-'' # str_nat (nat (- i)) else str_nat (nat i))"

section \<open>Configuration\<close>

text \<open>The six module-level globals (lines 11 to 16), each the result of \<open>os.getenv\<close>.\<close>

record config =
  GITLAB_GROUP_ID :: pyval
  GITLAB_TOKEN :: pyval
  BITBUCKET_USER :: pyval
  BITBUCKET_PASS :: pyval
  BITBUCKET_WORKSPACE :: pyval
  BITBUCKET_PROJECT :: pyval

definition required_names :: "string list" where
  "required_names = [''GITLAB_GROUP_ID'', ''GITLAB_TOKEN'', ''BITBUCKET_USER'',
     ''BITBUCKET_PASS'', ''BITBUCKET_WORKSPACE'', ''BITBUCKET_PROJECT'']"

text \<open>\<open>environ\<close> is the process environment after \<open>load_dotenv()\<close>; \<open>os.getenv name\<close>
  is \<open>environ name\<close>.\<close>

definition load_config :: "(string \<rightharpoonup> string) \<Rightarrow> config" where
  "load_config environ =
     \<lparr>GITLAB_GROUP_ID = environ ''GITLAB_GROUP_ID'',
      GITLAB_TOKEN = environ ''GITLAB_TOKEN'',
      BITBUCKET_USER = environ ''BITBUCKET_USER'',
      BITBUCKET_PASS = environ ''BITBUCKET_PASS'',
      BITBUCKET_WORKSPACE = environ ''BITBUCKET_WORKSPACE'',
      BITBUCKET_PROJECT = environ ''BITBUCKET_PROJECT''\<rparr>"

text \<open>Lines 19 and 20: \<open>if not all([...]): raise EnvironmentError(...)\<close>.\<close>

definition module_init :: "(string \<rightharpoonup> string) \<Rightarrow> exn + config" where
  "module_init environ =
     (let cfg = load_config environ in
      if \<not> list_all truthy
           [GITLAB_GROUP_ID cfg, GITLAB_TOKEN cfg, BITBUCKET_USER cfg, BITBUCKET_PASS cfg,
            BITBUCKET_WORKSPACE cfg, BITBUCKET_PROJECT cfg]
      then Inl (EnvironmentError
             ''One or more environment variables are not set. Please check your .env file.'')
      else Inr cfg)"

section \<open>The world outside the process\<close>

text \<open>A project of the listing response: a JSON object, as a dictionary with string or
  null values. \<open>project.get(key)\<close> is \<open>None\<close> for a missing key.\<close>

type_synonym project = "(string \<times> pyval) list"

definition dict_get :: "project \<Rightarrow> string \<Rightarrow> pyval" where
  "dict_get d k = (case map_of d k of None \<Rightarrow> None | Some v \<Rightarrow> v)"

text \<open>A \<open>requests.Response\<close>: the status, the body text, and the decoded JSON list.\<close>

record response =
  status_code :: int
  body_text :: string
  json :: "project list"

text \<open>
  The state the program changes: the directories under the working directory, the
  contents of \<open>error.txt\<close>, what was printed, the listing requests sent (page size and
  page number) and the seconds slept.
\<close>

record world =
  dirs :: "string set"
  error_txt :: string
  stdout :: "string list"
  requests_log :: "(int \<times> int) list"
  slept :: int

text \<open>
  What the external systems answer. Each operation either raises (\<open>Some e\<close>, \<open>Inl e\<close>) or
  succeeds. \<open>clone_from url repo_dir\<close> is \<open>git.Repo.clone_from(url, repo_dir, mirror=True)\<close>;
  \<open>requests_post url auth project_key\<close> is the create call of lines 59 to 63;
  \<open>set_url repo_dir new_url\<close> is lines 70 to 73; \<open>push repo_dir\<close> is line 76;
  \<open>requests_get url token per_page page\<close> is line 115; \<open>getcwd\<close> is \<open>os.getcwd()\<close>;
  \<open>open_append path\<close> is what opening and writing the file \<open>path\<close> in append mode raises
  (lines 32 and 33) for a reason other than \<open>path\<close> being a directory, if anything.
\<close>

record env =
  clone_from :: "string \<Rightarrow> string \<Rightarrow> exn option"
  requests_post :: "string \<Rightarrow> pyval \<times> pyval \<Rightarrow> pyval \<Rightarrow> exn + response"
  set_url :: "string \<Rightarrow> string \<Rightarrow> exn option"
  push :: "string \<Rightarrow> exn option"
  requests_get :: "string \<Rightarrow> pyval \<Rightarrow> int \<Rightarrow> int \<Rightarrow> exn + response"
  getcwd :: string
  open_append :: "string \<Rightarrow> exn option"

definition print :: "string \<Rightarrow> world \<Rightarrow> world" where
  "print s w = w\<lparr>stdout := stdout w @ [s]\<rparr>"

definition sleep :: "int \<Rightarrow> world \<Rightarrow> world" where
  "sleep n w = w\<lparr>slept := slept w + n\<rparr>"

text \<open>A path between apostrophes, as the messages of the operating system's errors show it.\<close>

definition quoted :: "string \<Rightarrow> string" where
  "quoted path = CHR 0x27 # path @ [CHR 0x27]"

text \<open>\<open>shutil.rmtree\<close>: removes the directory, and raises when there is none.\<close>

definition rmtree :: "string \<Rightarrow> world \<Rightarrow> exn + world" where
  "rmtree d w =
     (if d \<in> dirs w then Inr (w\<lparr>dirs := dirs w - {d}\<rparr>)
      else Inl (FileNotFoundError (''[Errno 2] No such file or directory: '' @ quoted d)))"

text \<open>\<open>os.path.join\<close> of a directory and a relative name.\<close>

definition path_join :: "string \<Rightarrow> string \<Rightarrow> string" where
  "path_join a b = (if a = [] \<or> last a = CHR ''/'' then a @ b else a @ ''/'' @ b)"

section \<open>The program\<close>

text \<open>
  \<open>log_error\<close> (lines 22 to 33): appends the message and a newline to \<open>error.txt\<close> in
  the working directory. Opening the file raises when \<open>error.txt\<close> is a directory, and may
  raise for other reasons (permissions, a full disk); then nothing is written. The result
  is the exception that leaves \<open>log_error\<close>, if any, and the world.
\<close>

definition log_error :: "env \<Rightarrow> string \<Rightarrow> world \<Rightarrow> exn option \<times> world" where
  "log_error e error_message w =
     (let error_file_path = path_join (getcwd e) ''error.txt'' in
      if ''error.txt'' \<in> dirs w
      then (Some (IsADirectoryError (''[Errno 21] Is a directory: '' @ quoted error_file_path)),
            w)
      else
        (case open_append e error_file_path of
           Some x \<Rightarrow> (Some x, w)
         | None \<Rightarrow> (None, w\<lparr>error_txt := error_txt w @ error_message @ [CHR 0x0A]\<rparr>)))"

text \<open>The f-strings of lines 58 and 72.\<close>

definition bitbucket_api_url_of :: "config \<Rightarrow> string \<Rightarrow> string" where
  "bitbucket_api_url_of cfg name =
     ''https://api.bitbucket.org/2.0/repositories/'' @ str_val (BITBUCKET_WORKSPACE cfg)
       @ ''/'' @ name"

definition new_remote_url_of :: "config \<Rightarrow> string \<Rightarrow> string" where
  "new_remote_url_of cfg name =
     ''https://'' @ str_val (BITBUCKET_USER cfg) @ '':'' @ str_val (BITBUCKET_PASS cfg)
       @ ''@bitbucket.org/'' @ str_val (BITBUCKET_WORKSPACE cfg) @ ''/'' @ name @ ''.git''"

text \<open>
  The \<open>try\<close> block of \<open>sync_repos\<close> (lines 52 to 82). The result is the exception that
  left the block, if any, and the world at that moment. A successful mirror clone creates
  \<open>repo_dir\<close>; a failed one is taken to leave the directories as they were.
\<close>

definition sync_body ::
  "env \<Rightarrow> config \<Rightarrow> pyval \<Rightarrow> pyval \<Rightarrow> world \<Rightarrow> exn option \<times> world" where
  "sync_body e cfg github_repo_url bitbucket_repo_name w =
     (case bitbucket_repo_name of
        None \<Rightarrow>
          (Some (AttributeError (CHR 0x27 # ''NoneType'' @ CHR 0x27 # '' object has no attribute ''
                   @ CHR 0x27 # ''lower'' @ [CHR 0x27])), w)
      | Some raw_name \<Rightarrow>
     (case github_repo_url of
        None \<Rightarrow>
          (Some (TypeError ''expected str, bytes or os.PathLike object, not NoneType''), w)
      | Some url \<Rightarrow>
          let name = sanitize raw_name;
              repo_dir = repo_dir_of url;
              w1 = print (''Cloning: '' @ url) w
          in
     (case clone_from e url repo_dir of
        Some x \<Rightarrow> (Some x, w1)
      | None \<Rightarrow>
          let w2 = w1\<lparr>dirs := insert repo_dir (dirs w1)\<rparr>;
              w3 = print (''Creating a repo on Bitbucket: '' @ name) w2;
              bitbucket_api_url = bitbucket_api_url_of cfg name
          in
     (case requests_post e bitbucket_api_url (BITBUCKET_USER cfg, BITBUCKET_PASS cfg)
             (BITBUCKET_PROJECT cfg) of
        Inl x \<Rightarrow> (Some x, w3)
      | Inr response \<Rightarrow>
          if status_code response = 200 \<or> status_code response = 201 then
            let w4 = print ''Repo successfully created on Bitbucket.'' w3;
                new_remote_url = new_remote_url_of cfg name
            in
     (case set_url e repo_dir new_remote_url of
        Some x \<Rightarrow> (Some x, w4)
      | None \<Rightarrow>
          let w5 = print ''All branches and tags are pushed to Bitbucket...'' w4 in
     (case push e repo_dir of
        Some x \<Rightarrow> (Some x, w5)
      | None \<Rightarrow>
          let w6 = print (''Deleting local repo files: '' @ repo_dir) w5 in
     (case rmtree repo_dir w6 of
        Inl x \<Rightarrow> (Some x, w6)
      | Inr w7 \<Rightarrow>
          (None,
           sleep 5
             (print (''Local repo files have been deleted successfully.'' @ [CHR 0x0A]) w7)))))
          else
            (Some (Exception (''An error occurred while creating the repo on Bitbucket: ''
                     @ body_text response)), w3)))))"

text \<open>
  \<open>sync_repos\<close> (lines 35 to 87): the \<open>try\<close> block under its handler. The handler
  calls \<open>log_error\<close> outside any \<open>try\<close>, so an exception of \<open>log_error\<close> leaves
  \<open>sync_repos\<close>, before line 87 prints. The first component of the result is the exception
  that reaches the caller (\<open>None\<close> when the call returns).
\<close>

definition sync_repos ::
  "env \<Rightarrow> config \<Rightarrow> pyval \<Rightarrow> pyval \<Rightarrow> world \<Rightarrow> exn option \<times> world" where
  "sync_repos e cfg github_repo_url bitbucket_repo_name w =
     (case sync_body e cfg github_repo_url bitbucket_repo_name w of
        (None, w') \<Rightarrow> (None, w')
      | (Some x, w') \<Rightarrow>
          let error_message = ''Repo: '' @ str_val github_repo_url @ '', Error: '' @ str_exn x
          in
          (case log_error e error_message w' of
             (Some y, w'') \<Rightarrow> (Some y, w'')
           | (None, w'') \<Rightarrow> (None, print (''Error occurred: '' @ error_message) w'')))"

text \<open>
  The \<open>while True\<close> loop of \<open>fetch_and_save_gitlab_projects\<close> (lines 114 to 125). It
  has no bound of its own: it ends when a page is empty, when a status is not 200, or
  when the request raises.
\<close>

partial_function (option) fetch_pages ::
  "env \<Rightarrow> string \<Rightarrow> pyval \<Rightarrow> int \<Rightarrow> int \<Rightarrow> project list \<Rightarrow> world
     \<Rightarrow> ((exn + project list) \<times> world) option" where
  "fetch_pages e url token per_page page projects w =
     (let w1 = w\<lparr>requests_log := requests_log w @ [(per_page, page)]\<rparr> in
      case requests_get e url token per_page page of
        Inl x \<Rightarrow> Some (Inl x, w1)
      | Inr response \<Rightarrow>
          if status_code response = 200 then
            (let data = json response in
             if data = [] then Some (Inr projects, w1)
             else fetch_pages e url token per_page (page + 1) (projects @ data) w1)
          else
            Some (Inr projects,
                  print (''An error occurred while importing projects: ''
                         @ str_int (status_code response)) w1))"

text \<open>The \<open>for\<close> loop of lines 130 to 133.\<close>

fun repos_infos_of :: "project list \<Rightarrow> (pyval \<times> pyval) list" where
  "repos_infos_of [] = []"
| "repos_infos_of (project # projects) =
     (dict_get project ''path'', dict_get project ''http_url_to_repo'')
       # repos_infos_of projects"

text \<open>\<open>fetch_and_save_gitlab_projects\<close> (lines 89 to 135); first the f-string of
  line 105.\<close>

definition gitlab_api_url_of :: "pyval \<Rightarrow> string" where
  "gitlab_api_url_of group_id =
     ''https://gitlab.com/api/v4/groups/'' @ str_val group_id @ ''/projects''"

definition fetch_and_save_gitlab_projects ::
  "env \<Rightarrow> pyval \<Rightarrow> pyval \<Rightarrow> world \<Rightarrow> ((exn + (pyval \<times> pyval) list) \<times> world) option" where
  "fetch_and_save_gitlab_projects e group_id token w =
     (let GITLAB_API_URL = gitlab_api_url_of group_id in
      case fetch_pages e GITLAB_API_URL token 100 1 [] w of
        None \<Rightarrow> None
      | Some (Inl x, w1) \<Rightarrow> Some (Inl x, w1)
      | Some (Inr projects, w1) \<Rightarrow>
          Some (Inr (repos_infos_of projects),
                if projects = []
                then print (''No project found in the group '' @ str_val group_id) w1
                else w1))"

text \<open>The \<open>for path, url in repoz\<close> loop of lines 140 and 141: it goes on while the call
  returns.\<close>

fun sync_all :: "env \<Rightarrow> config \<Rightarrow> (pyval \<times> pyval) list \<Rightarrow> world \<Rightarrow> exn option \<times> world" where
  "sync_all e cfg [] w = (None, w)"
| "sync_all e cfg ((path, url) # repoz) w =
     (case sync_repos e cfg url path w of
        (Some x, w') \<Rightarrow> (Some x, w')
      | (None, w') \<Rightarrow> sync_all e cfg repoz w')"

text \<open>The main block (lines 137 to 143).\<close>

definition main_block :: "env \<Rightarrow> config \<Rightarrow> world \<Rightarrow> (exn option \<times> world) option" where
  "main_block e cfg w =
     (case fetch_and_save_gitlab_projects e (GITLAB_GROUP_ID cfg) (GITLAB_TOKEN cfg) w of
        None \<Rightarrow> None
      | Some (Inl x, w1) \<Rightarrow> Some (Some x, w1)
      | Some (Inr repoz, w1) \<Rightarrow>
          (case sync_all e cfg repoz w1 of
             (Some x, w2) \<Rightarrow> Some (Some x, w2)
           | (None, w2) \<Rightarrow> Some (None, print ''All repos are synchronized.'' w2)))"

text \<open>The whole run: module initialisation, then the main block. \<open>None\<close> is a run that
  never ends; otherwise the uncaught exception, if any, and the final world.\<close>

definition program ::
  "env \<Rightarrow> (string \<rightharpoonup> string) \<Rightarrow> world \<Rightarrow> (exn option \<times> world) option" where
  "program e environ w =
     (case module_init environ of
        Inl x \<Rightarrow> Some (Some x, w)
      | Inr cfg \<Rightarrow> main_block e cfg w)"

section \<open>Vocabulary of the properties\<close>


text \<open>The listing endpoint answers a request for \<open>page\<close> with status 200 and \<open>data\<close>.\<close>

definition page_ok :: "env \<Rightarrow> string \<Rightarrow> pyval \<Rightarrow> int \<Rightarrow> int \<Rightarrow> project list \<Rightarrow> bool" where
  "page_ok e url token per_page page data =
     (case requests_get e url token per_page page of
        Inl x \<Rightarrow> False
      | Inr response \<Rightarrow> status_code response = 200 \<and> json response = data)"

text \<open>The listing endpoint answers a request for \<open>page\<close> with a status other than 200.\<close>

definition page_failed :: "env \<Rightarrow> string \<Rightarrow> pyval \<Rightarrow> int \<Rightarrow> int \<Rightarrow> bool" where
  "page_failed e url token per_page page =
     (case requests_get e url token per_page page of
        Inl x \<Rightarrow> False
      | Inr response \<Rightarrow> status_code response \<noteq> 200)"

text \<open>The requests for \<open>n\<close> consecutive pages from page \<open>p\<close> on.\<close>

definition page_requests :: "int \<Rightarrow> int \<Rightarrow> nat \<Rightarrow> (int \<times> int) list" where
  "page_requests per_page p n = map (\<lambda>i. (per_page, p + int i)) [0..<n]"

text \<open>The outcome of the steps of one replication of \<open>url\<close> under the raw name \<open>n\<close>:
  the create call as \<open>sync_repos\<close> issues it, and the success of clone, repoint and push.\<close>

definition create_call :: "env \<Rightarrow> config \<Rightarrow> string \<Rightarrow> exn + response" where
  "create_call e cfg n =
     requests_post e (bitbucket_api_url_of cfg (sanitize n))
       (BITBUCKET_USER cfg, BITBUCKET_PASS cfg) (BITBUCKET_PROJECT cfg)"

definition clone_ok :: "env \<Rightarrow> string \<Rightarrow> bool" where
  "clone_ok e url = (clone_from e url (repo_dir_of url) = None)"

definition created :: "env \<Rightarrow> config \<Rightarrow> string \<Rightarrow> bool" where
  "created e cfg n =
     (case create_call e cfg n of
        Inl x \<Rightarrow> False
      | Inr response \<Rightarrow> status_code response = 200 \<or> status_code response = 201)"

definition repoint_ok :: "env \<Rightarrow> config \<Rightarrow> string \<Rightarrow> string \<Rightarrow> bool" where
  "repoint_ok e cfg url n =
     (set_url e (repo_dir_of url) (new_remote_url_of cfg (sanitize n)) = None)"

definition push_ok :: "env \<Rightarrow> string \<Rightarrow> bool" where
  "push_ok e url = (push e (repo_dir_of url) = None)"



section \<open>Example inputs\<close>

definition example_config :: config where
  "example_config =
     \<lparr>GITLAB_GROUP_ID = Some ''42'', GITLAB_TOKEN = Some ''glpat'',
      BITBUCKET_USER = Some ''user'', BITBUCKET_PASS = Some ''pass'',
      BITBUCKET_WORKSPACE = Some ''ws'', BITBUCKET_PROJECT = Some ''PRJ''\<rparr>"

definition empty_world :: world where
  "empty_world = \<lparr>dirs = {}, error_txt = [], stdout = [], requests_log = [], slept = 0\<rparr>"


text \<open>Every operation succeeds; the create call answers \<open>status\<close> with the body \<open>body\<close>;
  the listing endpoint serves the pages \<open>pages\<close> and then empty pages.\<close>

definition env_answering :: "int \<Rightarrow> string \<Rightarrow> project list list \<Rightarrow> env" where
  "env_answering status body pages =
     \<lparr>clone_from = (\<lambda>url repo_dir. None),
      requests_post = (\<lambda>url auth key.
         Inr \<lparr>status_code = status, body_text = body, json = []\<rparr>),
      set_url = (\<lambda>repo_dir url. None),
      push = (\<lambda>repo_dir. None),
      requests_get = (\<lambda>url token per_page page.
         Inr \<lparr>status_code = 200, body_text = [],
              json = (if 1 \<le> page \<and> page \<le> int (length pages)
                      then pages ! nat (page - 1) else [])\<rparr>),
      getcwd = ''/work'',
      open_append = (\<lambda>path. None)\<rparr>"


text \<open>The listing endpoint serves the pages \<open>pages\<close> and answers \<open>status\<close> after them.\<close>

definition env_page_status :: "project list list \<Rightarrow> int \<Rightarrow> env" where
  "env_page_status pages status =
     (env_answering 201 [] pages)\<lparr>requests_get := (\<lambda>url token per_page page.
         if 1 \<le> page \<and> page \<le> int (length pages)
         then Inr \<lparr>status_code = 200, body_text = [], json = pages ! nat (page - 1)\<rparr>
         else Inr \<lparr>status_code = status, body_text = [], json = []\<rparr>)\<rparr>"


text \<open>A listed project with both fields.\<close>

definition example_project :: "string \<Rightarrow> project" where
  "example_project name =
     [(''path'', Some name),
      (''http_url_to_repo'', Some (''https://gitlab.com/group/'' @ name @ ''.git''))]"

text \<open>An environment with the six variables set, and one where the token is set to the
  empty string.\<close>

definition example_environ :: "string \<rightharpoonup> string" where
  "example_environ =
     map_of [(''GITLAB_GROUP_ID'', ''42''), (''GITLAB_TOKEN'', ''glpat''),
             (''BITBUCKET_USER'', ''user''), (''BITBUCKET_PASS'', ''pass''),
             (''BITBUCKET_WORKSPACE'', ''ws''), (''BITBUCKET_PROJECT'', ''PRJ'')]"

definition environ_empty_token :: "string \<rightharpoonup> string" where
  "environ_empty_token = example_environ(''GITLAB_TOKEN'' \<mapsto> [])"

section \<open>Sanitization\<close>

lemma codepoint_lt_256: "codepoint c < 256"
  by (simp add: codepoint_def)

lemma codepoint_char_of: "n < 256 \<Longrightarrow> codepoint (char_of (n::nat)) = n"
  by (simp add: codepoint_def)

lemma char_of_codepoint: "char_of (codepoint c) = c"
  by (simp add: codepoint_def)

lemma codepoint_eq_iff: "codepoint c = codepoint d \<longleftrightarrow> c = d"
  by (simp add: codepoint_def)

lemma codepoint_lower_char:
  "codepoint (lower_char c) =
     (if (65 \<le> codepoint c \<and> codepoint c \<le> 90) \<or> (192 \<le> codepoint c \<and> codepoint c \<le> 214)
          \<or> (216 \<le> codepoint c \<and> codepoint c \<le> 222)
      then codepoint c + 32 else codepoint c)"
  by (simp add: lower_char_def codepoint_char_of)

lemma lower_char_idem: "lower_char (lower_char c) = lower_char c"
proof -
  have "\<not> ((65 \<le> codepoint (lower_char c) \<and> codepoint (lower_char c) \<le> 90)
      \<or> (192 \<le> codepoint (lower_char c) \<and> codepoint (lower_char c) \<le> 214)
      \<or> (216 \<le> codepoint (lower_char c) \<and> codepoint (lower_char c) \<le> 222))"
    unfolding codepoint_lower_char by (auto split: if_splits)
  then show ?thesis
    by (subst lower_char_def) (simp only: if_False)
qed

lemma sanitize_idem: "sanitize (sanitize s) = sanitize s"
proof -
  let ?keep = "\<lambda>c. isalnum c \<or> c \<in> set [CHR ''_'', CHR ''-'', CHR ''.'']"
  have "map lower_char (filter ?keep (map lower_char s)) = filter ?keep (map lower_char s)"
  proof (rule map_idI)
    fix x assume "x \<in> set (filter ?keep (map lower_char s))"
    then obtain y where "x = lower_char y" by auto
    then show "lower_char x = x" by (simp add: lower_char_idem)
  qed
  then show ?thesis
    by (simp add: sanitize_def lower_def)
qed

subsection \<open>The two models of line 52 agree\<close>

lemma to_lower_full_codepoint: "to_lower_full u (codepoint c) = [codepoint (lower_char c)]"
  by (simp add: to_lower_full_def codepoint_lt_256 char_of_codepoint)

lemma is_alnum_codepoint: "is_alnum u (codepoint c) = isalnum c"
  by (simp add: is_alnum_def codepoint_lt_256 char_of_codepoint)

lemma codepoint_not_sigma: "codepoint c \<noteq> 0x3A3"
  using codepoint_lt_256[of c] by simp

lemma lower_from_cps: "lower_from u seen (cps s) = cps (lower s)"
proof (induction s arbitrary: seen)
  case Nil
  then show ?case by (simp add: cps_def lower_def)
next
  case (Cons c s)
  have "lower_from u seen (cps (c # s))
      = to_lower_full u (codepoint c) @ lower_from u (seen @ [codepoint c]) (cps s)"
    using codepoint_not_sigma[of c] by (simp add: cps_def)
  also have "\<dots> = cps (lower (c # s))"
    by (simp add: Cons.IH to_lower_full_codepoint) (simp add: cps_def lower_def)
  finally show ?case .
qed

lemma sanitize_str_cps: "sanitize_str u (cps s) = cps (sanitize s)"
  by (simp add: sanitize_str_def str_lower_def lower_from_cps sanitize_def)
     (simp add: cps_def filter_map comp_def is_alnum_codepoint codepoint_eq_iff)

subsection \<open>The character class\<close>

lemma in_class_ranges:
  "in_class c \<longleftrightarrow>
     (97 \<le> c \<and> c \<le> 122) \<or> (48 \<le> c \<and> c \<le> 57) \<or> c = 95 \<or> c = 46 \<or> c = 45"
  by (simp add: in_class_def cps_def codepoint_def) presburger

lemma special_ranges:
  "c \<in> set (cps [CHR ''_'', CHR ''-'', CHR ''.'']) \<longleftrightarrow> c = 95 \<or> c = 45 \<or> c = 46"
  by (simp add: cps_def codepoint_def)

lemma is_alnum_small:
  "c < 256 \<Longrightarrow> is_alnum u c =
     ((48 \<le> c \<and> c \<le> 57) \<or> (65 \<le> c \<and> c \<le> 90) \<or> (97 \<le> c \<and> c \<le> 122) \<or> c = 170
      \<or> (178 \<le> c \<and> c \<le> 179) \<or> c = 181 \<or> (185 \<le> c \<and> c \<le> 186) \<or> (188 \<le> c \<and> c \<le> 190)
      \<or> (192 \<le> c \<and> c \<le> 214) \<or> (216 \<le> c \<and> c \<le> 246) \<or> (248 \<le> c \<and> c \<le> 255))"
  by (simp add: is_alnum_def isalnum_def codepoint_char_of)

lemma keep_eq:
  "(is_alnum u c \<or> c \<in> set (cps [CHR ''_'', CHR ''-'', CHR ''.'']))
     = (in_class c \<or> is_alnum u c)"
proof (cases "c < 256")
  case True
  then show ?thesis
    by (auto simp: in_class_ranges special_ranges is_alnum_small)
next
  case False
  then show ?thesis
    by (auto simp: in_class_ranges special_ranges)
qed

lemma sanitize_str_keeps:
  "sanitize_str u s = filter (\<lambda>c. in_class c \<or> is_alnum u c) (str_lower u s)"
  by (simp add: sanitize_str_def keep_eq)

lemma lowered_ascii_alnum_in_class:
  assumes "c < 128"
  shows "list_all (\<lambda>d. is_alnum u d \<longrightarrow> in_class d) (to_lower_full u c)"
proof -
  let ?d = "codepoint (lower_char (char_of c))"
  have c: "codepoint (char_of c) = c" using assms by (simp add: codepoint_char_of)
  have d: "?d = (if 65 \<le> c \<and> c \<le> 90 then c + 32 else c)"
    using assms by (simp add: codepoint_lower_char c)
  have "is_alnum u ?d \<longrightarrow> in_class ?d"
    unfolding d using assms by (auto simp: is_alnum_small in_class_ranges)
  then show ?thesis
    using assms by (simp add: to_lower_full_def)
qed

lemma lower_from_ascii:
  "list_all (\<lambda>c. c < 128) s \<Longrightarrow>
     list_all (\<lambda>d. is_alnum u d \<longrightarrow> in_class d) (lower_from u seen s)"
proof (induction s arbitrary: seen)
  case Nil
  then show ?case by simp
next
  case (Cons c s)
  then have c: "c < 128" and s: "list_all (\<lambda>c. c < 128) s" by simp_all
  from c have "c \<noteq> 0x3A3" by simp
  then show ?case
    using lowered_ascii_alnum_in_class[OF c, of u] Cons.IH[OF s] by simp
qed

lemma filter_subpredicate_eq:
  assumes "\<And>x. Q x \<Longrightarrow> P x"
  shows "filter P xs = filter Q xs \<longleftrightarrow> (\<forall>x \<in> set xs. P x \<longrightarrow> Q x)"
proof
  assume eq: "filter P xs = filter Q xs"
  have "filter Q (filter P xs) = filter Q xs"
    using assms by (auto intro: filter_cong)
  with eq have "filter Q (filter P xs) = filter P xs" by simp
  then have "\<forall>x \<in> set (filter P xs). Q x" by (simp only: filter_id_conv)
  then show "\<forall>x \<in> set xs. P x \<longrightarrow> Q x" by simp
next
  assume "\<forall>x \<in> set xs. P x \<longrightarrow> Q x"
  with assms show "filter P xs = filter Q xs"
    by (auto intro: filter_cong)
qed

text \<open>
  C2, as amended. For every raw destination name, sanitization yields the lower-cased name
  with exactly those characters dropped that are neither in \<open>[a-z0-9_.-]\<close> nor alphanumeric
  for \<open>str.isalnum\<close>, the others in their order: a character outside the set is dropped
  unless it is alphanumeric, and then it is kept. So the result is the lower-cased name
  with exactly the characters outside the set dropped if and only if the lower-cased name
  has no alphanumeric character outside the set; every ASCII name is such a name, and
  \<open>My Repo!!2024\<close> becomes \<open>myrepo2024\<close>.
\<close>

theorem sanitize_keeps_class_and_alnum:
  "sanitize_str u s = filter (\<lambda>c. in_class c \<or> is_alnum u c) (str_lower u s)
   \<and> (sanitize_str u s = filter in_class (str_lower u s)
        \<longleftrightarrow> (\<forall>c \<in> set (str_lower u s). is_alnum u c \<longrightarrow> in_class c))
   \<and> (is_ascii s \<longrightarrow> sanitize_str u s = filter in_class (str_lower u s))
   \<and> sanitize_str u (cps ''My Repo!!2024'') = cps ''myrepo2024''"
proof (intro conjI impI)
  show "sanitize_str u s = filter (\<lambda>c. in_class c \<or> is_alnum u c) (str_lower u s)"
    by (rule sanitize_str_keeps)
  have iff: "sanitize_str u t = filter in_class (str_lower u t)
        \<longleftrightarrow> (\<forall>c \<in> set (str_lower u t). is_alnum u c \<longrightarrow> in_class c)" for t
    unfolding sanitize_str_keeps
    by (subst filter_subpredicate_eq) auto
  show "sanitize_str u s = filter in_class (str_lower u s)
        \<longleftrightarrow> (\<forall>c \<in> set (str_lower u s). is_alnum u c \<longrightarrow> in_class c)"
    by (rule iff)
  have ascii: "sanitize_str u t = filter in_class (str_lower u t)" if "is_ascii t" for t
  proof -
    from that have "list_all (\<lambda>c. c < 128) t" by (simp add: is_ascii_def)
    from lower_from_ascii[OF this, of u "[]"]
    have "\<forall>c \<in> set (str_lower u t). is_alnum u c \<longrightarrow> in_class c"
      by (simp add: str_lower_def list_all_iff)
    with iff[of t] show ?thesis by blast
  qed
  show "sanitize_str u s = filter in_class (str_lower u s)" if "is_ascii s"
    using that by (rule ascii)
  have "is_ascii (cps ''My Repo!!2024'')"
    by (simp add: is_ascii_def cps_def codepoint_def)
  then have "sanitize_str u (cps ''My Repo!!2024'')
      = filter in_class (str_lower u (cps ''My Repo!!2024''))"
    by (rule ascii)
  also have "\<dots> = filter in_class (cps (lower ''My Repo!!2024''))"
    by (simp only: str_lower_def lower_from_cps)
  also have "\<dots> = cps ''myrepo2024''"
    by code_simp
  finally show "sanitize_str u (cps ''My Repo!!2024'') = cps ''myrepo2024''" .
qed

theorem sanitize_keeps_class_and_alnum_witness:
  "is_ascii (cps ''My Repo!!2024'')
   \<and> sanitize_str greek_excerpt (cps ''My Repo!!2024'')
       = filter in_class (str_lower greek_excerpt (cps ''My Repo!!2024''))
   \<and> str_lower greek_excerpt [97, 0xA7, 66] = [97, 0xA7, 98]
   \<and> sanitize_str greek_excerpt [97, 0xA7, 66]
       = filter in_class (str_lower greek_excerpt [97, 0xA7, 66])
   \<and> sanitize_str greek_excerpt [99, 97, 102, 233]
       = filter (\<lambda>c. in_class c \<or> is_alnum greek_excerpt c)
           (str_lower greek_excerpt [99, 97, 102, 233])"
proof -
  have a: "is_ascii (cps ''My Repo!!2024'')"
    by (simp add: is_ascii_def cps_def codepoint_def)
  have l: "str_lower greek_excerpt [97, 0xA7, 66] = [97, 0xA7, 98]"
    by (simp add: str_lower_def to_lower_full_def lower_char_def codepoint_def)
  have h: "\<forall>c \<in> set (str_lower greek_excerpt [97, 0xA7, 66]).
      is_alnum greek_excerpt c \<longrightarrow> in_class c"
    unfolding l by (simp add: in_class_ranges is_alnum_small)
  from sanitize_keeps_class_and_alnum[of greek_excerpt "cps ''My Repo!!2024''"] a
  have c1: "sanitize_str greek_excerpt (cps ''My Repo!!2024'')
       = filter in_class (str_lower greek_excerpt (cps ''My Repo!!2024''))"
    by blast
  from sanitize_keeps_class_and_alnum[of greek_excerpt "[97, 0xA7, 66]"] h
  have c2: "sanitize_str greek_excerpt [97, 0xA7, 66]
       = filter in_class (str_lower greek_excerpt [97, 0xA7, 66])"
    by blast
  from sanitize_keeps_class_and_alnum[of greek_excerpt "[99, 97, 102, 233]"]
  have c3: "sanitize_str greek_excerpt [99, 97, 102, 233]
       = filter (\<lambda>c. in_class c \<or> is_alnum greek_excerpt c)
           (str_lower greek_excerpt [99, 97, 102, 233])"
    by blast
  from a l c1 c2 c3 show ?thesis by blast
qed

text \<open>
  C2 as stated fails: in the name \<open>caf\<close> followed by the letter e with acute accent
  (U+00E9), the accented letter is outside \<open>[a-z0-9_.-]\<close>, and sanitization keeps it. The
  same holds in the model of the program's strings.
\<close>

theorem sanitize_keeps_accented_letter:
  "sanitize_str greek_excerpt [99, 97, 102, 233] = [99, 97, 102, 233]
   \<and> filter in_class (str_lower greek_excerpt [99, 97, 102, 233]) = [99, 97, 102]
   \<and> sanitize [CHR ''c'', CHR ''a'', CHR ''f'', CHR 0xE9]
       = [CHR ''c'', CHR ''a'', CHR ''f'', CHR 0xE9]"
proof -
  have l: "str_lower greek_excerpt [99, 97, 102, 233] = [99, 97, 102, 233]"
    by (simp add: str_lower_def to_lower_full_def lower_char_def codepoint_def)
  have a: "sanitize_str greek_excerpt [99, 97, 102, 233] = [99, 97, 102, 233]"
    by (simp add: sanitize_str_keeps l in_class_ranges is_alnum_small)
  have b: "filter in_class (str_lower greek_excerpt [99, 97, 102, 233]) = [99, 97, 102]"
    by (simp add: l in_class_ranges)
  have c: "sanitize [CHR ''c'', CHR ''a'', CHR ''f'', CHR 0xE9]
       = [CHR ''c'', CHR ''a'', CHR ''f'', CHR 0xE9]"
    by code_simp
  from a b c show ?thesis by simp
qed

subsection \<open>Idempotence\<close>

lemma lower_fixed_small:
  assumes "c < 256"
  shows "list_all (lower_fixed u) (to_lower_full u c)"
proof -
  let ?d = "codepoint (lower_char (char_of c))"
  have "?d < 256" by (rule codepoint_lt_256)
  then have "?d \<noteq> 0x3A3" "to_lower_full u ?d = [?d]"
    by (simp_all add: to_lower_full_def char_of_codepoint lower_char_idem)
  then show ?thesis
    using assms by (simp add: to_lower_full_def lower_fixed_def)
qed

lemma lower_from_fixed:
  "list_all (lower_fixed u) s \<Longrightarrow> lower_from u seen s = s"
  by (induction s arbitrary: seen) (simp_all add: lower_fixed_def)

lemma lower_from_all_fixed:
  assumes "lowercase_stable u \<or> list_all (\<lambda>c. c < 256) s"
  shows "list_all (lower_fixed u) (lower_from u seen s)"
  using assms
proof (induction s arbitrary: seen)
  case Nil
  then show ?case by simp
next
  case (Cons c s)
  from Cons.prems have tl: "lowercase_stable u \<or> list_all (\<lambda>c. c < 256) s" by auto
  have hd: "list_all (lower_fixed u)
      (if c = 0x3A3 then [if final_sigma u seen s then 0x3C2 else 0x3C3]
       else to_lower_full u c)"
  proof (cases "c < 256")
    case True
    then have "c \<noteq> 0x3A3" by simp
    with lower_fixed_small[OF True, of u] show ?thesis by simp
  next
    case False
    with Cons.prems have st: "lowercase_stable u" by auto
    show ?thesis
    proof (cases "c = 0x3A3")
      case True
      with st show ?thesis by (simp add: lowercase_stable_def)
    next
      case sigma: False
      from st False sigma have "list_all (lower_fixed u) (lower_above u c)"
        by (simp add: lowercase_stable_def)
      with False sigma show ?thesis by (simp add: to_lower_full_def)
    qed
  qed
  from hd Cons.IH[OF tl] show ?case by simp
qed

lemma sanitize_str_idem:
  assumes "lowercase_stable u \<or> list_all (\<lambda>c. c < 256) s"
  shows "sanitize_str u (sanitize_str u s) = sanitize_str u s"
proof -
  let ?keep = "\<lambda>c. is_alnum u c \<or> c \<in> set (cps [CHR ''_'', CHR ''-'', CHR ''.''])"
  let ?t = "filter ?keep (str_lower u s)"
  have "list_all (lower_fixed u) (str_lower u s)"
    unfolding str_lower_def by (rule lower_from_all_fixed[OF assms])
  then have "list_all (lower_fixed u) ?t"
    by (simp add: list_all_iff)
  then have "str_lower u ?t = ?t"
    unfolding str_lower_def by (rule lower_from_fixed)
  then show ?thesis
    by (simp add: sanitize_str_def)
qed

lemma greek_excerpt_stable: "lowercase_stable greek_excerpt"
  by (auto simp: lowercase_stable_def lower_fixed_def to_lower_full_def greek_excerpt_def
      codepoint_lower_char codepoint_char_of)

text \<open>
  C9. Sanitization is idempotent: sanitizing a sanitized name changes nothing. This holds
  for every string over every Unicode database in which lower-casing is stable (no
  lower-case mapping produces a character that lower-casing changes again, as in the
  databases of CPython), for every string of code points below 256 whatever the database
  says above them, and in the model of the program's strings.
\<close>

theorem sanitize_idempotent:
  "(lowercase_stable u \<longrightarrow> sanitize_str u (sanitize_str u s) = sanitize_str u s)
   \<and> (list_all (\<lambda>c. c < 256) s \<longrightarrow> sanitize_str u (sanitize_str u s) = sanitize_str u s)
   \<and> sanitize (sanitize t) = sanitize t"
proof (intro conjI impI)
  assume "lowercase_stable u"
  then show "sanitize_str u (sanitize_str u s) = sanitize_str u s"
    by (intro sanitize_str_idem) simp
next
  assume "list_all (\<lambda>c. c < 256) s"
  then show "sanitize_str u (sanitize_str u s) = sanitize_str u s"
    by (intro sanitize_str_idem) simp
next
  show "sanitize (sanitize t) = sanitize t"
    by (rule sanitize_idem)
qed

theorem sanitize_idempotent_witness:
  "lowercase_stable greek_excerpt
   \<and> sanitize_str greek_excerpt [0x391, 0x3A3, 0x20, 0x130, 0x21] = [0x3B1, 0x3C2, 0x69]
   \<and> sanitize_str greek_excerpt (sanitize_str greek_excerpt [0x391, 0x3A3, 0x20, 0x130, 0x21])
       = sanitize_str greek_excerpt [0x391, 0x3A3, 0x20, 0x130, 0x21]
   \<and> sanitize_str greek_excerpt (sanitize_str greek_excerpt [99, 97, 102, 233])
       = sanitize_str greek_excerpt [99, 97, 102, 233]
   \<and> sanitize (sanitize ''My Repo!!2024'') = sanitize ''My Repo!!2024''"
proof -
  have v: "sanitize_str greek_excerpt [0x391, 0x3A3, 0x20, 0x130, 0x21] = [0x3B1, 0x3C2, 0x69]"
    by code_simp
  have small: "list_all (\<lambda>c. c < 256) [99, 97, 102, (233::nat)]" by simp
  from sanitize_idempotent[of greek_excerpt "[0x391, 0x3A3, 0x20, 0x130, 0x21]"
      "''My Repo!!2024''"] greek_excerpt_stable
  have a: "sanitize_str greek_excerpt
         (sanitize_str greek_excerpt [0x391, 0x3A3, 0x20, 0x130, 0x21])
       = sanitize_str greek_excerpt [0x391, 0x3A3, 0x20, 0x130, 0x21]
     \<and> sanitize (sanitize ''My Repo!!2024'') = sanitize ''My Repo!!2024''"
    by blast
  from sanitize_idempotent[of greek_excerpt "[99, 97, 102, 233]" "''My Repo!!2024''"] small
  have b: "sanitize_str greek_excerpt (sanitize_str greek_excerpt [99, 97, 102, 233])
       = sanitize_str greek_excerpt [99, 97, 102, 233]"
    by blast
  from greek_excerpt_stable v a b show ?thesis by blast
qed

section \<open>Local directory naming\<close>

text \<open>
  C6. The claim: the directory name is the final path segment of the URL with a trailing
  \<open>.git\<close> stripped and \<open>.git\<close> appended. The code calls \<open>replace\<close>, which deletes every
  occurrence of \<open>.git\<close>, not only the trailing one. On an ordinary clone URL the two agree;
  on a project whose path contains \<open>.git\<close> inside (\<open>my.github.io\<close>) the code yields
  \<open>myhub.io.git\<close> where the claim requires \<open>my.github.io.git\<close>.
\<close>

theorem repo_dir_of_interior_git:
  "repo_dir_of ''https://gitlab.com/group/proj.git'' = ''proj.git''
     \<and> spec_repo_dir ''https://gitlab.com/group/proj.git'' = ''proj.git''
     \<and> repo_dir_of ''https://gitlab.com/group/my.github.io.git'' = ''myhub.io.git''
     \<and> spec_repo_dir ''https://gitlab.com/group/my.github.io.git'' = ''my.github.io.git''"
  by (simp add: repo_dir_of_def spec_repo_dir_def basename_def replace_def
      strip_suffix_git_def suffix_def)

section \<open>Replication\<close>


lemma sync_body_success:
  assumes "clone_ok e u" "created e cfg n" "repoint_ok e cfg u n" "push_ok e u"
  shows "fst (sync_body e cfg (Some u) (Some n) w) = None"
    and "repo_dir_of u \<notin> dirs (snd (sync_body e cfg (Some u) (Some n) w))"
  using assms
  by (auto simp: sync_body_def Let_def print_def sleep_def rmtree_def clone_ok_def created_def
      create_call_def repoint_ok_def push_ok_def split: option.splits sum.splits)

lemma sync_body_failure:
  assumes "clone_ok e u" "\<not> created e cfg n \<or> \<not> repoint_ok e cfg u n \<or> \<not> push_ok e u"
  shows "repo_dir_of u \<in> dirs (snd (sync_body e cfg (Some u) (Some n) w))"
  using assms
  by (auto simp: sync_body_def Let_def print_def sleep_def rmtree_def clone_ok_def created_def
      create_call_def repoint_ok_def push_ok_def split: option.splits sum.splits)












lemma sync_repos_dirs:
  "dirs (snd (sync_repos e cfg url name w)) = dirs (snd (sync_body e cfg url name w))"
  by (cases "sync_body e cfg url name w")
     (auto simp: sync_repos_def Let_def print_def log_error_def
       split: prod.splits option.splits)







lemma env_answering_steps:
  "clone_ok (env_answering status body pages) u"
  "repoint_ok (env_answering status body pages) cfg u n"
  "push_ok (env_answering status body pages) u"
  "create_call (env_answering status body pages) cfg n
     = Inr \<lparr>status_code = status, body_text = body, json = []\<rparr>"
  by (simp_all add: clone_ok_def repoint_ok_def push_ok_def create_call_def env_answering_def)






text \<open>
  C7. When clone, create, repoint and push all succeed, the local mirror directory does not
  exist after \<open>sync_repos\<close> returns. When the clone has succeeded and create, repoint or push
  fails, the directory is still there afterwards: the cleanup step is not reached.
\<close>

theorem mirror_dir_removed_on_success:
  "(clone_ok e u \<and> created e cfg n \<and> repoint_ok e cfg u n \<and> push_ok e u \<longrightarrow>
      repo_dir_of u \<notin> dirs (snd (sync_repos e cfg (Some u) (Some n) w)))
   \<and> (clone_ok e u \<and> (\<not> created e cfg n \<or> \<not> repoint_ok e cfg u n \<or> \<not> push_ok e u) \<longrightarrow>
      repo_dir_of u \<in> dirs (snd (sync_repos e cfg (Some u) (Some n) w)))"
proof (intro conjI impI)
  assume "clone_ok e u \<and> created e cfg n \<and> repoint_ok e cfg u n \<and> push_ok e u"
  then have "repo_dir_of u \<notin> dirs (snd (sync_body e cfg (Some u) (Some n) w))"
    by (intro sync_body_success) simp_all
  then show "repo_dir_of u \<notin> dirs (snd (sync_repos e cfg (Some u) (Some n) w))"
    by (simp add: sync_repos_dirs)
next
  assume "clone_ok e u \<and> (\<not> created e cfg n \<or> \<not> repoint_ok e cfg u n \<or> \<not> push_ok e u)"
  then have "repo_dir_of u \<in> dirs (snd (sync_body e cfg (Some u) (Some n) w))"
    by (intro sync_body_failure) simp_all
  then show "repo_dir_of u \<in> dirs (snd (sync_repos e cfg (Some u) (Some n) w))"
    by (simp add: sync_repos_dirs)
qed

theorem mirror_dir_removed_on_success_witness:
  "repo_dir_of ''https://gitlab.com/group/proj.git''
     \<notin> dirs (snd (sync_repos (env_answering 201 [] []) example_config
          (Some ''https://gitlab.com/group/proj.git'') (Some ''proj'') empty_world))
   \<and> repo_dir_of ''https://gitlab.com/group/proj.git''
     \<in> dirs (snd (sync_repos (env_answering 409 [] []) example_config
          (Some ''https://gitlab.com/group/proj.git'') (Some ''proj'') empty_world))"
proof -
  let ?u = "''https://gitlab.com/group/proj.git''"
  have ok: "created (env_answering 201 [] []) example_config ''proj''"
    by (simp add: created_def env_answering_steps)
  have no: "\<not> created (env_answering 409 [] []) example_config ''proj''"
    by (simp add: created_def env_answering_steps)
  from mirror_dir_removed_on_success[of "env_answering 201 [] []" ?u example_config
      "''proj''" empty_world] ok
  have a: "repo_dir_of ?u \<notin> dirs (snd (sync_repos (env_answering 201 [] []) example_config
          (Some ?u) (Some ''proj'') empty_world))"
    by (simp add: env_answering_steps)
  from mirror_dir_removed_on_success[of "env_answering 409 [] []" ?u example_config
      "''proj''" empty_world] no
  have b: "repo_dir_of ?u \<in> dirs (snd (sync_repos (env_answering 409 [] []) example_config
          (Some ?u) (Some ''proj'') empty_world))"
    by (simp add: env_answering_steps)
  from a b show ?thesis by simp
qed

section \<open>Startup\<close>

lemma module_init_missing:
  assumes "n \<in> set required_names" "environ n = None \<or> environ n = Some []"
  shows "module_init environ = Inl (EnvironmentError
             ''One or more environment variables are not set. Please check your .env file.'')"
  using assms by (auto simp: module_init_def load_config_def required_names_def Let_def)

lemma module_init_present:
  assumes "\<forall>n \<in> set required_names. environ n \<noteq> None \<and> environ n \<noteq> Some []"
  shows "module_init environ = Inr (load_config environ)"
proof -
  have "truthy (environ n)" if "n \<in> set required_names" for n
    using assms that by (cases "environ n") auto
  then show ?thesis
    by (simp add: module_init_def load_config_def required_names_def Let_def)
qed

text \<open>
  C8, as amended. If any of the six required variables is unset, or set to the empty
  string, the run ends with \<open>EnvironmentError\<close> and the world is untouched: no request has
  been sent and nothing was written. If all six are set to non-empty values, the run is the
  main block under the loaded configuration.
\<close>

theorem startup_requires_configuration:
  "((\<exists>n \<in> set required_names. environ n = None \<or> environ n = Some []) \<longrightarrow>
      program e environ w = Some (Some (EnvironmentError
        ''One or more environment variables are not set. Please check your .env file.''), w))
   \<and> ((\<forall>n \<in> set required_names. environ n \<noteq> None \<and> environ n \<noteq> Some []) \<longrightarrow>
      program e environ w = main_block e (load_config environ) w)"
proof (intro conjI impI)
  assume "\<exists>n \<in> set required_names. environ n = None \<or> environ n = Some []"
  then obtain n where "n \<in> set required_names" "environ n = None \<or> environ n = Some []"
    by blast
  then show "program e environ w = Some (Some (EnvironmentError
        ''One or more environment variables are not set. Please check your .env file.''), w)"
    by (simp add: program_def module_init_missing)
next
  assume "\<forall>n \<in> set required_names. environ n \<noteq> None \<and> environ n \<noteq> Some []"
  then show "program e environ w = main_block e (load_config environ) w"
    by (simp add: program_def module_init_present)
qed

theorem startup_requires_configuration_witness:
  "program (env_answering 201 [] []) (example_environ(''GITLAB_TOKEN'' := None)) empty_world
     = Some (Some (EnvironmentError
        ''One or more environment variables are not set. Please check your .env file.''),
        empty_world)
   \<and> program (env_answering 201 [] []) example_environ empty_world
     = main_block (env_answering 201 [] []) (load_config example_environ) empty_world"
proof -
  have a: "\<exists>n \<in> set required_names. (example_environ(''GITLAB_TOKEN'' := None)) n = None
      \<or> (example_environ(''GITLAB_TOKEN'' := None)) n = Some []"
    by (simp add: required_names_def)
  have b: "\<forall>n \<in> set required_names. example_environ n \<noteq> None \<and> example_environ n \<noteq> Some []"
    by (simp add: required_names_def example_environ_def)
  from startup_requires_configuration[of "example_environ(''GITLAB_TOKEN'' := None)"
      "env_answering 201 [] []" empty_world] a
  have c: "program (env_answering 201 [] []) (example_environ(''GITLAB_TOKEN'' := None))
      empty_world = Some (Some (EnvironmentError
        ''One or more environment variables are not set. Please check your .env file.''),
        empty_world)"
    by blast
  from startup_requires_configuration[of example_environ "env_answering 201 [] []"
      empty_world] b
  have d: "program (env_answering 201 [] []) example_environ empty_world
     = main_block (env_answering 201 [] []) (load_config example_environ) empty_world"
    by blast
  from c d show ?thesis by simp
qed

text \<open>
  C8 as stated fails in its second half: with all six variables set, the token to the empty
  string, startup does not proceed; the run ends with the same error.
\<close>

theorem startup_rejects_empty_value:
  "set required_names \<subseteq> dom environ_empty_token
   \<and> program (env_answering 201 [] []) environ_empty_token empty_world
     = Some (Some (EnvironmentError
        ''One or more environment variables are not set. Please check your .env file.''),
        empty_world)"
  by (simp add: program_def module_init_def load_config_def environ_empty_token_def
      example_environ_def required_names_def)


section \<open>Listing\<close>

lemma fetch_pages_step:
  assumes "page_ok e url token pp p data" "data \<noteq> []"
  shows "fetch_pages e url token pp p projects w =
         fetch_pages e url token pp (p + 1) (projects @ data)
           (w\<lparr>requests_log := requests_log w @ [(pp, p)]\<rparr>)"
  using assms
  by (subst fetch_pages.simps) (auto simp: page_ok_def Let_def split: sum.splits)

lemma fetch_pages_empty:
  assumes "page_ok e url token pp p []"
  shows "fetch_pages e url token pp p projects w =
         Some (Inr projects, w\<lparr>requests_log := requests_log w @ [(pp, p)]\<rparr>)"
  using assms
  by (subst fetch_pages.simps) (auto simp: page_ok_def Let_def split: sum.splits)

lemma fetch_pages_failed:
  assumes "page_failed e url token pp p"
  shows "\<exists>w'. fetch_pages e url token pp p projects w = Some (Inr projects, w')
           \<and> requests_log w' = requests_log w @ [(pp, p)]"
  using assms
  by (subst fetch_pages.simps) (auto simp: page_failed_def Let_def print_def split: sum.splits)

lemma page_requests_Suc:
  "page_requests pp p (Suc n) = (pp, p) # page_requests pp (p + 1) n"
  unfolding page_requests_def
  by (simp add: upt_conv_Cons map_Suc_upt[symmetric] add.assoc del: upt_Suc)

lemma page_requests_snoc:
  "page_requests pp p (Suc n) = page_requests pp p n @ [(pp, p + int n)]"
  by (simp add: page_requests_def)

lemma fetch_pages_run:
  assumes "\<forall>i<length pages. page_ok e url token pp (p + int i) (pages ! i)"
    and "[] \<notin> set pages"
  shows "fetch_pages e url token pp p projects w =
         fetch_pages e url token pp (p + int (length pages)) (projects @ concat pages)
           (w\<lparr>requests_log := requests_log w @ page_requests pp p (length pages)\<rparr>)"
  using assms
proof (induction pages arbitrary: p projects w)
  case Nil
  then show ?case by (simp add: page_requests_def)
next
  case (Cons x xs)
  from Cons.prems have x: "page_ok e url token pp p x" "x \<noteq> []" by auto
  have xs: "\<forall>i<length xs. page_ok e url token pp (p + 1 + int i) (xs ! i)"
  proof (intro allI impI)
    fix i assume "i < length xs"
    then have "page_ok e url token pp (p + int (Suc i)) ((x # xs) ! Suc i)"
      using Cons.prems(1) by (metis Suc_less_eq length_Cons)
    then show "page_ok e url token pp (p + 1 + int i) (xs ! i)"
      by (simp add: algebra_simps)
  qed
  from Cons.prems have ne: "[] \<notin> set xs" by simp
  let ?w1 = "w\<lparr>requests_log := requests_log w @ [(pp, p)]\<rparr>"
  have "fetch_pages e url token pp p projects w
      = fetch_pages e url token pp (p + 1) (projects @ x) ?w1"
    by (rule fetch_pages_step[OF x])
  also have "\<dots> = fetch_pages e url token pp (p + 1 + int (length xs))
      ((projects @ x) @ concat xs)
      (?w1\<lparr>requests_log := requests_log ?w1 @ page_requests pp (p + 1) (length xs)\<rparr>)"
    by (rule Cons.IH[OF xs ne])
  also have "\<dots> = fetch_pages e url token pp (p + int (length (x # xs)))
      (projects @ concat (x # xs))
      (w\<lparr>requests_log := requests_log w @ page_requests pp p (length (x # xs))\<rparr>)"
    by (simp add: page_requests_Suc add.assoc)
  finally show ?case .
qed

lemma repos_infos_of_map:
  "repos_infos_of projects
     = map (\<lambda>p. (dict_get p ''path'', dict_get p ''http_url_to_repo'')) projects"
  by (induction projects) simp_all

lemma dict_get_missing: "k \<notin> fst ` set d \<Longrightarrow> dict_get d k = None"
  by (simp add: dict_get_def map_of_eq_None_iff[THEN iffD2])

lemma fetch_and_save_of_pages:
  assumes "fetch_pages e (gitlab_api_url_of g) t 100 1 [] w = Some (Inr projects, w1)"
  shows "\<exists>w2. fetch_and_save_gitlab_projects e g t w = Some (Inr (repos_infos_of projects), w2)
           \<and> requests_log w2 = requests_log w1"
  using assms by (simp add: fetch_and_save_gitlab_projects_def Let_def print_def)

lemma env_answering_serves:
  "i < length pages \<Longrightarrow>
     page_ok (env_answering s b pages) url t pp (1 + int i) (pages ! i)"
  "page_ok (env_answering s b pages) url t pp (1 + int (length pages)) []"
  by (simp_all add: page_ok_def env_answering_def)

lemma env_page_status_serves:
  "i < length pages \<Longrightarrow>
     page_ok (env_page_status pages s) url t pp (1 + int i) (pages ! i)"
  "s \<noteq> 200 \<Longrightarrow> page_failed (env_page_status pages s) url t pp (1 + int (length pages))"
  by (simp_all add: page_ok_def page_failed_def env_page_status_def)




lemma fetch_pages_then_empty:
  assumes "\<forall>i<length pages. page_ok e url t pp (1 + int i) (pages ! i)"
    and "[] \<notin> set pages"
    and "page_ok e url t pp (1 + int (length pages)) []"
  shows "fetch_pages e url t pp 1 [] w =
     Some (Inr (concat pages),
           w\<lparr>requests_log := requests_log w @ page_requests pp 1 (length pages + 1)\<rparr>)"
  by (simp add: fetch_pages_run[OF assms(1,2)] fetch_pages_empty[OF assms(3)]
      page_requests_snoc)

lemma fetch_pages_then_failed:
  assumes "\<forall>i<length pages. page_ok e url t pp (1 + int i) (pages ! i)"
    and "[] \<notin> set pages"
    and "page_failed e url t pp (1 + int (length pages))"
  shows "\<exists>w'. fetch_pages e url t pp 1 [] w = Some (Inr (concat pages), w')
     \<and> requests_log w' = requests_log w @ page_requests pp 1 (length pages + 1)"
  using fetch_pages_failed[OF assms(3), of "concat pages"
      "w\<lparr>requests_log := requests_log w @ page_requests pp 1 (length pages)\<rparr>"]
  by (simp add: fetch_pages_run[OF assms(1,2)] page_requests_snoc)

lemma repos_infos_of_map_of:
  "repos_infos_of projects
     = map (\<lambda>project.
                  (case map_of project ''path'' of None \<Rightarrow> None | Some v \<Rightarrow> v,
                   case map_of project ''http_url_to_repo'' of None \<Rightarrow> None | Some v \<Rightarrow> v))
         projects"
  by (induction projects) (simp_all add: dict_get_def)


lemma fetch_and_save_then_failed:
  assumes "\<forall>i<length pages. page_ok e (gitlab_api_url_of g) t 100 (1 + int i) (pages ! i)"
    and "[] \<notin> set pages"
    and "page_failed e (gitlab_api_url_of g) t 100 (1 + int (length pages))"
  shows "\<exists>w'. fetch_and_save_gitlab_projects e g t w
            = Some (Inr (map (\<lambda>project.
                  (case map_of project ''path'' of None \<Rightarrow> None | Some v \<Rightarrow> v,
                   case map_of project ''http_url_to_repo'' of None \<Rightarrow> None | Some v \<Rightarrow> v))
                (concat pages)), w')
          \<and> requests_log w' = requests_log w @ page_requests 100 1 (length pages + 1)"
proof -
  from fetch_pages_then_failed[OF assms, of w]
  obtain w1 where w1: "fetch_pages e (gitlab_api_url_of g) t 100 1 [] w
       = Some (Inr (concat pages), w1)"
      "requests_log w1 = requests_log w @ page_requests 100 1 (length pages + 1)"
    by blast
  from fetch_and_save_of_pages[OF w1(1)] w1(2) show ?thesis
    by (auto simp: repos_infos_of_map_of)
qed

lemma example_pairs_a:
  "map (\<lambda>project.
                  (case map_of project ''path'' of None \<Rightarrow> None | Some v \<Rightarrow> v,
                   case map_of project ''http_url_to_repo'' of None \<Rightarrow> None | Some v \<Rightarrow> v))
     (replicate n (example_project ''a''))
   = replicate n (Some ''a'', Some ''https://gitlab.com/group/a.git'')"
  by (simp add: example_project_def)





text \<open>
  C4. When the pages \<open>1 .. k\<close> come back with status 200 and are not empty and page
  \<open>k + 1\<close> comes back with a status other than 200, the listing returns, for every project
  of the pages \<open>1 .. k\<close> in page order, the pair of its \<open>path\<close> and its \<open>http_url_to_repo\<close>;
  the requests it has sent are those for the pages \<open>1 .. k + 1\<close>, each once, so the failed
  page is not requested again. With 100 projects on page 1 and status 500 on page 2 the
  result is the 100 pairs of page 1: see the witness.
\<close>

theorem listing_stops_on_error_status:
  "(\<forall>i<length pages. page_ok e (gitlab_api_url_of g) t 100 (1 + int i) (pages ! i))
     \<and> [] \<notin> set pages
     \<and> page_failed e (gitlab_api_url_of g) t 100 (1 + int (length pages)) \<longrightarrow>
     (\<exists>w'. fetch_and_save_gitlab_projects e g t w
              = Some (Inr (map (\<lambda>project.
                  (case map_of project ''path'' of None \<Rightarrow> None | Some v \<Rightarrow> v,
                   case map_of project ''http_url_to_repo'' of None \<Rightarrow> None | Some v \<Rightarrow> v))
                  (concat pages)), w')
            \<and> requests_log w' = requests_log w @ page_requests 100 1 (length pages + 1))"
proof (intro impI)
  assume "(\<forall>i<length pages. page_ok e (gitlab_api_url_of g) t 100 (1 + int i) (pages ! i))
     \<and> [] \<notin> set pages
     \<and> page_failed e (gitlab_api_url_of g) t 100 (1 + int (length pages))"
  then show "\<exists>w'. fetch_and_save_gitlab_projects e g t w
              = Some (Inr (map (\<lambda>project.
                  (case map_of project ''path'' of None \<Rightarrow> None | Some v \<Rightarrow> v,
                   case map_of project ''http_url_to_repo'' of None \<Rightarrow> None | Some v \<Rightarrow> v))
                  (concat pages)), w')
            \<and> requests_log w' = requests_log w @ page_requests 100 1 (length pages + 1)"
    by (intro fetch_and_save_then_failed) simp_all
qed

theorem listing_stops_on_error_status_witness:
  "page_failed (env_page_status [replicate 100 (example_project ''a'')] 500)
        (gitlab_api_url_of (Some ''42'')) (Some ''glpat'') 100 2
   \<and> (\<exists>w'. fetch_and_save_gitlab_projects
            (env_page_status [replicate 100 (example_project ''a'')] 500)
            (Some ''42'') (Some ''glpat'') empty_world
          = Some (Inr (replicate 100 (Some ''a'', Some ''https://gitlab.com/group/a.git'')), w')
        \<and> requests_log w' = [(100, 1), (100, 2)])
   \<and> length (replicate 100 (Some ''a'', Some ''https://gitlab.com/group/a.git'')) = 100"
proof -
  let ?pages = "[replicate 100 (example_project ''a'')]"
  let ?e = "env_page_status ?pages 500"
  let ?U = "gitlab_api_url_of (Some ''42'')"
  have h1: "\<forall>i<length ?pages. page_ok ?e ?U (Some ''glpat'') 100 (1 + int i) (?pages ! i)"
    using env_page_status_serves(1)[of _ ?pages] by blast
  have h2: "[] \<notin> set ?pages" by simp
  have h3: "page_failed ?e ?U (Some ''glpat'') 100 (1 + int (length ?pages))"
    by (rule env_page_status_serves(2)) simp
  have r: "page_requests 100 1 (length ?pages + 1) = [(100, 1), (100, 2)]"
    by (simp add: page_requests_def)
  have w: "requests_log empty_world = []" by (simp add: empty_world_def)
  have v: "map (\<lambda>project.
                  (case map_of project ''path'' of None \<Rightarrow> None | Some v \<Rightarrow> v,
                   case map_of project ''http_url_to_repo'' of None \<Rightarrow> None | Some v \<Rightarrow> v))
        (concat ?pages)
      = replicate 100 (Some ''a'', Some ''https://gitlab.com/group/a.git'')"
    using example_pairs_a[where n = 100] by simp
  from listing_stops_on_error_status[of ?pages ?e "Some ''42''" "Some ''glpat''" empty_world]
    h1 h2 h3
  have a: "\<exists>w'. fetch_and_save_gitlab_projects ?e (Some ''42'') (Some ''glpat'') empty_world
          = Some (Inr (replicate 100 (Some ''a'', Some ''https://gitlab.com/group/a.git'')), w')
        \<and> requests_log w' = [(100, 1), (100, 2)]"
    unfolding r w v by simp
  from h3 a show ?thesis by simp
qed

text \<open>
  C10. The listing makes one pair per collected project, in order, and never raises over
  them: each pair holds what \<open>get\<close> returns for \<open>path\<close> and for \<open>http_url_to_repo\<close>, which is
  \<open>None\<close> for a project without that field. Whenever the page loop returns its projects, the
  listing returns their pairs.
\<close>

theorem lister_pairs_every_entry:
  "repos_infos_of projects
     = map (\<lambda>p. (dict_get p ''path'', dict_get p ''http_url_to_repo'')) projects
   \<and> (''path'' \<notin> fst ` set p \<longrightarrow> dict_get p ''path'' = None)
   \<and> (''http_url_to_repo'' \<notin> fst ` set p \<longrightarrow> dict_get p ''http_url_to_repo'' = None)
   \<and> (fetch_pages e (gitlab_api_url_of g) t 100 1 [] w = Some (Inr projects, w1) \<longrightarrow>
        (\<exists>w2. fetch_and_save_gitlab_projects e g t w
                 = Some (Inr (repos_infos_of projects), w2)))"
proof (intro conjI impI)
  show "repos_infos_of projects
     = map (\<lambda>p. (dict_get p ''path'', dict_get p ''http_url_to_repo'')) projects"
    by (rule repos_infos_of_map)
next
  assume "''path'' \<notin> fst ` set p"
  then show "dict_get p ''path'' = None" by (rule dict_get_missing)
next
  assume "''http_url_to_repo'' \<notin> fst ` set p"
  then show "dict_get p ''http_url_to_repo'' = None" by (rule dict_get_missing)
next
  assume "fetch_pages e (gitlab_api_url_of g) t 100 1 [] w = Some (Inr projects, w1)"
  from fetch_and_save_of_pages[OF this]
  show "\<exists>w2. fetch_and_save_gitlab_projects e g t w
                 = Some (Inr (repos_infos_of projects), w2)"
    by blast
qed

theorem lister_pairs_every_entry_witness:
  "dict_get [(''http_url_to_repo'', Some ''u'')] ''path'' = None
   \<and> dict_get [(''path'', Some ''a'')] ''http_url_to_repo'' = None
   \<and> (\<exists>w2. fetch_and_save_gitlab_projects
        (env_answering 201 []
           [[[(''path'', Some ''a'')], [(''http_url_to_repo'', Some ''u'')], []]])
        (Some ''42'') (Some ''glpat'') empty_world
      = Some (Inr [(Some ''a'', None), (None, Some ''u''), (None, None)], w2))"
proof -
  let ?projects = "[[(''path'', Some ''a'')], [(''http_url_to_repo'', Some ''u'')], []]"
  let ?e = "env_answering 201 [] [?projects]"
  let ?U = "gitlab_api_url_of (Some ''42'')"
  have h1: "\<forall>i<length [?projects]. page_ok ?e ?U (Some ''glpat'') 100 (1 + int i)
      ([?projects] ! i)"
    using env_answering_serves(1)[of _ "[?projects]"] by blast
  have h3: "page_ok ?e ?U (Some ''glpat'') 100 (1 + int (length [?projects])) []"
    by (rule env_answering_serves(2))
  have f: "fetch_pages ?e ?U (Some ''glpat'') 100 1 [] empty_world
      = Some (Inr ?projects, empty_world\<lparr>requests_log := requests_log empty_world
          @ page_requests 100 1 (length [?projects] + 1)\<rparr>)"
    using fetch_pages_then_empty[OF h1 _ h3, of empty_world] by simp
  have m1: "''path'' \<notin> fst ` set [(''http_url_to_repo'', Some ''u'')]" by simp
  have m2: "''http_url_to_repo'' \<notin> fst ` set [(''path'', Some ''a'')]" by simp
  from lister_pairs_every_entry[of ?projects "[(''http_url_to_repo'', Some ''u'')]" ?e
      "Some ''42''" "Some ''glpat''" empty_world
      "empty_world\<lparr>requests_log := requests_log empty_world
          @ page_requests 100 1 (length [?projects] + 1)\<rparr>"] m1 f
  have a: "dict_get [(''http_url_to_repo'', Some ''u'')] ''path'' = None
     \<and> (\<exists>w2. fetch_and_save_gitlab_projects ?e (Some ''42'') (Some ''glpat'') empty_world
          = Some (Inr [(Some ''a'', None), (None, Some ''u''), (None, None)], w2))"
    by (simp add: dict_get_def)
  from lister_pairs_every_entry[of ?projects "[(''path'', Some ''a'')]" ?e
      "Some ''42''" "Some ''glpat''" empty_world empty_world] m2
  have b: "dict_get [(''path'', Some ''a'')] ''http_url_to_repo'' = None"
    by blast
  from a b show ?thesis by simp
qed


end
